theory Spec2Isabelle
  imports
    Main
    "HOL-Library.Word"
    "HOL-Library.Finite_Map"
    "HOL-Library.Char_ord"
    "HOL-Library.List_Lexorder"
    "HOL-Library.Sublist"
begin

unbundle bit_operations_syntax

section \<open>Values and failures\<close>

text \<open>
  The values the admin layer moves between a request and the store are JSON values.
  Numbers are kept as integers: the code never calculates with them, it only asks
  whether one is a number and whether it is zero. The JavaScript value
  \<^verbatim>\<open>undefined\<close> is not one of them; it is what a lookup answers for an absent
  key, and it is written \<open>None\<close> wherever the source can see it.
\<close>

datatype jsval =
    JNull
  | JBool bool
  | JNum int
  | JStr string
  | JArr "jsval list"
  | JObj "(string \<times> jsval) list"

text \<open>
  The test \<^verbatim>\<open>if (x)\<close> of the source: \<^verbatim>\<open>undefined\<close>, \<^verbatim>\<open>null\<close>,
  \<^verbatim>\<open>false\<close>, \<^verbatim>\<open>0\<close> and the empty string are falsy, every array and object is truthy.
\<close>

fun truthy :: "jsval option \<Rightarrow> bool" where
  "truthy None = False"
| "truthy (Some JNull) = False"
| "truthy (Some (JBool b)) = b"
| "truthy (Some (JNum n)) = (n \<noteq> 0)"
| "truthy (Some (JStr s)) = (s \<noteq> [])"
| "truthy (Some (JArr xs)) = True"
| "truthy (Some (JObj kvs)) = True"

text \<open>
  What a \<^verbatim>\<open>throw\<close> carries: an \<^verbatim>\<open>Error\<close> with its message, or any other value.
  The source only ever throws the former; the latter is what a collaborator
  (the body parser, the relational backend) may throw.
\<close>

datatype failure = Error string | Thrown_other

text \<open>A plain object used as a record (\<^verbatim>\<open>Record<string, unknown>\<close>): its own properties.\<close>

type_synonym js_record = "(string, jsval) fmap"

section \<open>The storage abstraction\<close>

text \<open>
  The store of one durable object, as the interface \<^verbatim>\<open>DurableObjectStorage\<close> of the
  source declares it: the key/value entries, the alarm, and the optional relational
  capability \<^verbatim>\<open>sql\<close>. The field \<open>calls\<close> is a log of the calls made on the store,
  in order, so that statements of the kind "no storage call happened" and "the read
  came before the write" can be made.
  The limits of the platform (key and value sizes, entries per call) are not modelled.
\<close>

record sql_result =
  rows :: "(string \<times> jsval) list list"
  columnNames :: "string list"

datatype storage_call =
    Call_get string
  | Call_put string jsval
  | Call_put_entries js_record
  | Call_delete string
  | Call_list
  | Call_getAlarm
  | Call_setAlarm int
  | Call_deleteAlarm
  | Call_sql_exec string

record storage =
  entries :: "(string, jsval) fmap"
  alarm :: "int option"
  sql :: "(string \<Rightarrow> failure + sql_result) option"
  calls :: "storage_call list"

definition empty_storage :: "(string \<Rightarrow> failure + sql_result) option \<Rightarrow> storage" where
  "empty_storage backend = \<lparr>entries = fmempty, alarm = None, sql = backend, calls = []\<rparr>"

definition logged :: "storage_call \<Rightarrow> storage \<Rightarrow> storage" where
  "logged c s = s\<lparr>calls := calls s @ [c]\<rparr>"

definition storage_get :: "string \<Rightarrow> storage \<Rightarrow> jsval option \<times> storage" where
  "storage_get k s = (fmlookup (entries s) k, logged (Call_get k) s)"

definition storage_put :: "string \<Rightarrow> jsval \<Rightarrow> storage \<Rightarrow> storage" where
  "storage_put k v s = logged (Call_put k v) (s\<lparr>entries := fmupd k v (entries s)\<rparr>)"

definition storage_put_entries :: "js_record \<Rightarrow> storage \<Rightarrow> storage" where
  "storage_put_entries d s =
     logged (Call_put_entries d) (s\<lparr>entries := fmadd (entries s) d\<rparr>)"

definition storage_delete :: "string \<Rightarrow> storage \<Rightarrow> bool \<times> storage" where
  "storage_delete k s =
     (k |\<in>| fmdom (entries s), logged (Call_delete k) (s\<lparr>entries := fmdrop k (entries s)\<rparr>))"

text \<open>\<^verbatim>\<open>list()\<close> answers a \<^verbatim>\<open>Map\<close> of all entries, enumerated in key order.\<close>

definition entry_list :: "(string, jsval) fmap \<Rightarrow> (string \<times> jsval) list" where
  "entry_list m = map (\<lambda>k. (k, the (fmlookup m k))) (sorted_list_of_fset (fmdom m))"

definition storage_list :: "storage \<Rightarrow> (string \<times> jsval) list \<times> storage" where
  "storage_list s = (entry_list (entries s), logged Call_list s)"

definition storage_getAlarm :: "storage \<Rightarrow> int option \<times> storage" where
  "storage_getAlarm s = (alarm s, logged Call_getAlarm s)"

definition storage_setAlarm :: "int \<Rightarrow> storage \<Rightarrow> storage" where
  "storage_setAlarm t s = logged (Call_setAlarm t) (s\<lparr>alarm := Some t\<rparr>)"

definition storage_deleteAlarm :: "storage \<Rightarrow> storage" where
  "storage_deleteAlarm s = logged Call_deleteAlarm (s\<lparr>alarm := None\<rparr>)"

section \<open>The admin operations\<close>

definition FROZEN_STORAGE_KEY :: string where
  "FROZEN_STORAGE_KEY = ''__do_manager_frozen''"

text \<open>The second reserved key, written \<^verbatim>\<open>`${FROZEN_STORAGE_KEY}_at`\<close> in the source.\<close>

definition FROZEN_AT_KEY :: string where
  "FROZEN_AT_KEY = FROZEN_STORAGE_KEY @ ''_at''"

definition frozen_changes_msg :: string where
  "frozen_changes_msg = ''Instance is frozen. Unfreeze before making changes.''"

definition frozen_import_msg :: string where
  "frozen_import_msg = ''Instance is frozen. Unfreeze before importing data.''"

record AdminGetResponse =
  get_value :: "jsval option"

definition adminGet :: "string \<Rightarrow> storage \<Rightarrow> AdminGetResponse \<times> storage" where
  "adminGet k s = (let (v, s1) = storage_get k s in (\<lparr>get_value = v\<rparr>, s1))"

text \<open>
  Every operation that can throw answers \<open>Inl\<close> of the failure, and answers the store as
  it is at that moment in both cases: what was written before a throw stays written.
\<close>

definition adminPut :: "string \<Rightarrow> jsval \<Rightarrow> storage \<Rightarrow> (failure + unit) \<times> storage" where
  "adminPut k v s =
     (if k \<noteq> FROZEN_STORAGE_KEY then
        (let (isFrozen, s1) = storage_get FROZEN_STORAGE_KEY s in
         if truthy isFrozen then (Inl (Error frozen_changes_msg), s1)
         else (Inr (), storage_put k v s1))
      else (Inr (), storage_put k v s))"

definition adminDelete :: "string \<Rightarrow> storage \<Rightarrow> (failure + unit) \<times> storage" where
  "adminDelete k s =
     (if k \<noteq> FROZEN_STORAGE_KEY then
        (let (isFrozen, s1) = storage_get FROZEN_STORAGE_KEY s in
         if truthy isFrozen then (Inl (Error frozen_changes_msg), s1)
         else (Inr (), snd (storage_delete k s1)))
      else (Inr (), snd (storage_delete k s)))"

definition adminImport :: "js_record \<Rightarrow> storage \<Rightarrow> (failure + unit) \<times> storage" where
  "adminImport d s =
     (let (isFrozen, s1) = storage_get FROZEN_STORAGE_KEY s in
      if truthy isFrozen then (Inl (Error frozen_import_msg), s1)
      else (Inr (), storage_put_entries d s1))"

text \<open>
  The relational backend answers rows, each a record from column names to values.
  \<open>adminList\<close> asks the catalogue for the user tables when the backend is there, and
  lists the stored keys otherwise.
\<close>

definition list_tables_query :: string where
  "list_tables_query =
     ''SELECT name FROM sqlite_master WHERE type='' @ [CHR 0x27] @ ''table'' @ [CHR 0x27] @
     '' AND name NOT LIKE '' @ [CHR 0x27] @ ''sqlite_%'' @ [CHR 0x27] @
     '' AND name NOT LIKE '' @ [CHR 0x27] @ ''_cf_%'' @ [CHR 0x27]"

definition sql_exec ::
  "(string \<Rightarrow> failure + sql_result) \<Rightarrow> string \<Rightarrow> storage \<Rightarrow> (failure + sql_result) \<times> storage"
where
  "sql_exec backend q s = (backend q, logged (Call_sql_exec q) s)"

datatype AdminListResponse = Keys "string list" | Tables "jsval option list"

definition adminList :: "storage \<Rightarrow> (failure + AdminListResponse) \<times> storage" where
  "adminList s =
     (case sql s of
        Some backend \<Rightarrow>
          (case sql_exec backend list_tables_query s of
             (Inl f, s1) \<Rightarrow> (Inl f, s1)
           | (Inr result, s1) \<Rightarrow> (Inr (Tables (map (\<lambda>row. map_of row ''name'') (rows result))), s1))
      | None \<Rightarrow>
          (let (ents, s1) = storage_list s in (Inr (Keys (map fst ents)), s1)))"

record AdminSqlResponse =
  sql_rows :: "(string \<times> jsval) list list"
  rowCount :: nat
  columns :: "string list"

definition sql_unavailable_msg :: string where
  "sql_unavailable_msg = ''SQL not available - this DO uses KV storage backend''"

definition adminSql :: "string \<Rightarrow> storage \<Rightarrow> (failure + AdminSqlResponse) \<times> storage" where
  "adminSql q s =
     (case sql s of
        None \<Rightarrow> (Inl (Error sql_unavailable_msg), s)
      | Some backend \<Rightarrow>
          (case sql_exec backend q s of
             (Inl f, s1) \<Rightarrow> (Inl f, s1)
           | (Inr result, s1) \<Rightarrow>
               (Inr \<lparr>sql_rows = rows result, rowCount = length (rows result),
                     columns = columnNames result\<rparr>, s1)))"

definition adminGetAlarm :: "storage \<Rightarrow> int option \<times> storage" where
  "adminGetAlarm s = storage_getAlarm s"

definition adminSetAlarm :: "int \<Rightarrow> storage \<Rightarrow> storage" where
  "adminSetAlarm t s = storage_setAlarm t s"

definition adminDeleteAlarm :: "storage \<Rightarrow> storage" where
  "adminDeleteAlarm s = storage_deleteAlarm s"

text \<open>
  The assignment \<^verbatim>\<open>data[key] = value\<close> on an object made by \<^verbatim>\<open>{}\<close>. For every key
  but one it makes or overwrites an own property. The key \<^verbatim>\<open>__proto__\<close> is the
  accessor every plain object inherits: assigning to it runs the setter, which changes
  the prototype when the value is an object or \<^verbatim>\<open>null\<close> and does nothing otherwise;
  in neither case does the object get an own property. \<open>js_record\<close> holds the own
  properties, which are what \<^verbatim>\<open>JSON.stringify\<close> and \<^verbatim>\<open>Object.keys\<close> see.
\<close>

definition assign :: "js_record \<Rightarrow> string \<Rightarrow> jsval \<Rightarrow> js_record" where
  "assign d k v = (if k = ''__proto__'' then d else fmupd k v d)"

record AdminExportResponse =
  export_data :: js_record
  exportedAt :: string
  keyCount :: nat

text \<open>The argument \<open>now\<close> is the reading of the clock, \<^verbatim>\<open>new Date().toISOString()\<close>.\<close>

definition adminExport :: "string \<Rightarrow> storage \<Rightarrow> AdminExportResponse \<times> storage" where
  "adminExport now s =
     (let (ents, s1) = storage_list s;
          d = fold (\<lambda>(k, v) acc. assign acc k v) ents fmempty
      in (\<lparr>export_data = d, exportedAt = now, keyCount = length ents\<rparr>, s1))"

record AdminFreezeResponse =
  frozen :: bool
  frozenAt :: "jsval option"

definition adminFreeze :: "string \<Rightarrow> storage \<Rightarrow> AdminFreezeResponse \<times> storage" where
  "adminFreeze now s =
     (let frozen_at = now;
          s1 = storage_put FROZEN_STORAGE_KEY (JBool True) s;
          s2 = storage_put FROZEN_AT_KEY (JStr frozen_at) s1
      in (\<lparr>frozen = True, frozenAt = Some (JStr frozen_at)\<rparr>, s2))"

definition adminUnfreeze :: "storage \<Rightarrow> AdminFreezeResponse \<times> storage" where
  "adminUnfreeze s =
     (let s1 = snd (storage_delete FROZEN_STORAGE_KEY s);
          s2 = snd (storage_delete FROZEN_AT_KEY s1)
      in (\<lparr>frozen = False, frozenAt = None\<rparr>, s2))"

text \<open>\<^verbatim>\<open>frozenAt ?? undefined\<close> turns a stored \<^verbatim>\<open>null\<close> into \<^verbatim>\<open>undefined\<close>.\<close>

definition adminGetFreezeStatus :: "storage \<Rightarrow> AdminFreezeResponse \<times> storage" where
  "adminGetFreezeStatus s =
     (let (isFrozen, s1) = storage_get FROZEN_STORAGE_KEY s;
          (at, s2) = storage_get FROZEN_AT_KEY s1
      in (\<lparr>frozen = truthy isFrozen,
           frozenAt = (case at of Some JNull \<Rightarrow> None | _ \<Rightarrow> at)\<rparr>, s2))"

section \<open>The timing-safe comparison\<close>

text \<open>
  A JavaScript string is a sequence of 16-bit code units; \<^verbatim>\<open>charCodeAt\<close> reads one as
  a number, and outside the string it answers \<^verbatim>\<open>NaN\<close>, which the bitwise operators
  take as 0. The operators \<^verbatim>\<open>^\<close> and \<^verbatim>\<open>|\<close> work on 32-bit integers.
\<close>

type_synonym code_unit = "16 word"

type_synonym js_string = "code_unit list"

definition charCodeAt :: "js_string \<Rightarrow> nat \<Rightarrow> 32 word" where
  "charCodeAt a i = (if i < length a then ucast (a ! i) else 0)"

definition timingSafeEqual :: "js_string \<Rightarrow> js_string \<Rightarrow> bool" where
  "timingSafeEqual a b =
     (if length a \<noteq> length b then False
      else fold (\<lambda>i result. result OR (charCodeAt a i XOR charCodeAt b i)) [0..<length a] 0 = 0)"

section \<open>The router\<close>

text \<open>
  The options of \<^verbatim>\<open>withAdminHooks\<close>; an absent option is \<open>None\<close>. The option
  \<^verbatim>\<open>fallback\<close> is declared and never read by the code.
\<close>

record AdminHooksOptions =
  opt_basePath :: "string option"
  requireAuth :: "bool option"
  adminKey :: "js_string option"

definition basePath :: "AdminHooksOptions \<Rightarrow> string" where
  "basePath options = (case opt_basePath options of None \<Rightarrow> ''/admin'' | Some b \<Rightarrow> b)"

text \<open>
  The JSON body of a request, typed as the interfaces \<^verbatim>\<open>AdminPutBody\<close>,
  \<^verbatim>\<open>AdminDeleteBody\<close>, \<^verbatim>\<open>AdminSqlBody\<close>, \<^verbatim>\<open>AdminAlarmBody\<close> and
  \<^verbatim>\<open>AdminImportBody\<close> declare its fields. A field the router checks may be absent:
  \<open>body_key\<close> and \<open>body_query\<close> are strings when present, \<open>body_timestamp\<close> is any
  value, and \<open>body_data\<close> is \<open>None\<close> for everything the router's check refuses
  (\<^verbatim>\<open>null\<close>, \<^verbatim>\<open>undefined\<close>, anything whose \<^verbatim>\<open>typeof\<close> is not \<^verbatim>\<open>object\<close>) and
  the record of own properties otherwise. The router does not check \<open>body_value\<close> and
  hands it to the store as it is; a body without it would hand \<^verbatim>\<open>undefined\<close> to the
  store's \<^verbatim>\<open>put\<close>, whose reaction is the platform's and outside this code, so the
  field is taken as present.
\<close>

record body =
  body_key :: "string option"
  body_value :: jsval
  body_query :: "string option"
  body_timestamp :: "jsval option"
  body_data :: "js_record option"

text \<open>
  A request as the router reads it: the path of the parsed URL, the method
  (\<^verbatim>\<open>request.method\<close>, named \<open>http_method\<close> here), the header
  \<^verbatim>\<open>X-Admin-Key\<close>, the query parameter \<^verbatim>\<open>key\<close>, and what \<^verbatim>\<open>request.json()\<close>
  answers when it is called (\<open>Inl\<close> when it throws).
\<close>

record request =
  pathname :: string
  http_method :: string
  x_admin_key :: "js_string option"
  key_param :: "string option"
  json :: "failure + body"

text \<open>
  The object a response is built from (through \<^verbatim>\<open>Response.json\<close> or
  \<^verbatim>\<open>JSON.stringify\<close>). Every response of the router carries the content type
  \<^verbatim>\<open>application/json\<close>, which is left out.
\<close>

datatype payload =
    P_error string
  | P_list AdminListResponse
  | P_get AdminGetResponse
  | P_success
  | P_freeze AdminFreezeResponse
  | P_sql AdminSqlResponse
  | P_alarm "int option"
  | P_success_alarm int
  | P_export AdminExportResponse
  | P_imported nat

record response =
  status :: nat
  payload :: payload

definition json_response :: "payload \<Rightarrow> response" where
  "json_response p = \<lparr>status = 200, payload = p\<rparr>"

definition error_response :: "nat \<Rightarrow> string \<Rightarrow> response" where
  "error_response code msg = \<lparr>status = code, payload = P_error msg\<rparr>"

text \<open>\<^verbatim>\<open>s.split("/")\<close>: the pieces between the slashes, empty ones included.\<close>

fun split_slash :: "string \<Rightarrow> string list" where
  "split_slash [] = [[]]"
| "split_slash (c # cs) =
     (if c = CHR ''/'' then [] # split_slash cs
      else (case split_slash cs of
              [] \<Rightarrow> [[c]]
            | p # ps \<Rightarrow> (c # p) # ps))"

text \<open>The operation selector: the last non-empty segment of the path after the base path.\<close>

definition operation :: "string \<Rightarrow> string \<Rightarrow> string" where
  "operation base path =
     (let adminPath = drop (length base) path;
          pathParts = filter (\<lambda>p. p \<noteq> []) (split_slash adminPath)
      in if length pathParts > 0 then ''/'' @ pathParts ! (length pathParts - 1) else [])"

text \<open>
  The body of the \<^verbatim>\<open>try\<close> block is a chain of tests on the selector and the
  method. Each branch is given a name here; the result of a branch is \<open>Inl\<close> when
  something in it throws.
\<close>

type_synonym routed = "(failure + response) \<times> storage"

definition route_list :: "storage \<Rightarrow> routed" where
  "route_list s =
     (case adminList s of
        (Inl f, s1) \<Rightarrow> (Inl f, s1)
      | (Inr r, s1) \<Rightarrow> (Inr (json_response (P_list r)), s1))"

definition route_get :: "request \<Rightarrow> storage \<Rightarrow> routed" where
  "route_get req s =
     (case key_param req of
        None \<Rightarrow> (Inr (error_response 400 ''Missing key parameter''), s)
      | Some k \<Rightarrow>
          if k = [] then (Inr (error_response 400 ''Missing key parameter''), s)
          else (let (r, s1) = adminGet k s in (Inr (json_response (P_get r)), s1)))"

definition route_put :: "request \<Rightarrow> storage \<Rightarrow> routed" where
  "route_put req s =
     (case json req of
        Inl f \<Rightarrow> (Inl f, s)
      | Inr b \<Rightarrow>
          (case body_key b of
             None \<Rightarrow> (Inr (error_response 400 ''Missing key in body''), s)
           | Some k \<Rightarrow>
               if k = [] then (Inr (error_response 400 ''Missing key in body''), s)
               else (case adminPut k (body_value b) s of
                       (Inl f, s1) \<Rightarrow> (Inl f, s1)
                     | (Inr u, s1) \<Rightarrow> (Inr (json_response P_success), s1))))"

definition route_freeze :: "string \<Rightarrow> storage \<Rightarrow> routed" where
  "route_freeze now s =
     (let (r, s1) = adminFreeze now s in (Inr (json_response (P_freeze r)), s1))"

definition route_unfreeze :: "storage \<Rightarrow> routed" where
  "route_unfreeze s =
     (let (r, s1) = adminUnfreeze s in (Inr (json_response (P_freeze r)), s1))"

definition route_freeze_status :: "storage \<Rightarrow> routed" where
  "route_freeze_status s =
     (let (r, s1) = adminGetFreezeStatus s in (Inr (json_response (P_freeze r)), s1))"

definition route_delete :: "request \<Rightarrow> storage \<Rightarrow> routed" where
  "route_delete req s =
     (case json req of
        Inl f \<Rightarrow> (Inl f, s)
      | Inr b \<Rightarrow>
          (case body_key b of
             None \<Rightarrow> (Inr (error_response 400 ''Missing key in body''), s)
           | Some k \<Rightarrow>
               if k = [] then (Inr (error_response 400 ''Missing key in body''), s)
               else (case adminDelete k s of
                       (Inl f, s1) \<Rightarrow> (Inl f, s1)
                     | (Inr u, s1) \<Rightarrow> (Inr (json_response P_success), s1))))"

definition route_sql :: "request \<Rightarrow> storage \<Rightarrow> routed" where
  "route_sql req s =
     (case json req of
        Inl f \<Rightarrow> (Inl f, s)
      | Inr b \<Rightarrow>
          (case body_query b of
             None \<Rightarrow> (Inr (error_response 400 ''Missing query in body''), s)
           | Some q \<Rightarrow>
               if q = [] then (Inr (error_response 400 ''Missing query in body''), s)
               else (case adminSql q s of
                       (Inl f, s1) \<Rightarrow> (Inl f, s1)
                     | (Inr r, s1) \<Rightarrow> (Inr (json_response (P_sql r)), s1))))"

definition route_get_alarm :: "storage \<Rightarrow> routed" where
  "route_get_alarm s =
     (let (a, s1) = adminGetAlarm s in (Inr (json_response (P_alarm a)), s1))"

text \<open>\<^verbatim>\<open>typeof body.timestamp !== "number"\<close> refuses everything but a number.\<close>

definition route_set_alarm :: "request \<Rightarrow> storage \<Rightarrow> routed" where
  "route_set_alarm req s =
     (case json req of
        Inl f \<Rightarrow> (Inl f, s)
      | Inr b \<Rightarrow>
          (case body_timestamp b of
             Some (JNum t) \<Rightarrow> (Inr (json_response (P_success_alarm t)), adminSetAlarm t s)
           | _ \<Rightarrow> (Inr (error_response 400 ''Missing or invalid timestamp''), s)))"

definition route_delete_alarm :: "storage \<Rightarrow> routed" where
  "route_delete_alarm s = (Inr (json_response P_success), adminDeleteAlarm s)"

definition route_export :: "string \<Rightarrow> storage \<Rightarrow> routed" where
  "route_export now s =
     (let (r, s1) = adminExport now s in (Inr (json_response (P_export r)), s1))"

text \<open>\<^verbatim>\<open>Object.keys(body.data).length\<close> is the number of own properties.\<close>

definition route_import :: "request \<Rightarrow> storage \<Rightarrow> routed" where
  "route_import req s =
     (case json req of
        Inl f \<Rightarrow> (Inl f, s)
      | Inr b \<Rightarrow>
          (case body_data b of
             None \<Rightarrow> (Inr (error_response 400 ''Missing or invalid data object''), s)
           | Some d \<Rightarrow>
               (case adminImport d s of
                  (Inl f, s1) \<Rightarrow> (Inl f, s1)
                | (Inr u, s1) \<Rightarrow> (Inr (json_response (P_imported (fcard (fmdom d)))), s1))))"

definition route_unknown :: "storage \<Rightarrow> routed" where
  "route_unknown s = (Inr (error_response 404 ''Unknown admin endpoint''), s)"

definition route :: "string \<Rightarrow> string \<Rightarrow> request \<Rightarrow> storage \<Rightarrow> routed" where
  "route now op req s =
    (if op = ''/list'' \<and> http_method req = ''GET'' then route_list s
     else if op = ''/get'' \<and> http_method req = ''GET'' then route_get req s
     else if op = ''/put'' \<and> http_method req = ''POST'' then route_put req s
     else if op = ''/freeze'' \<and> http_method req = ''PUT'' then route_freeze now s
     else if op = ''/freeze'' \<and> http_method req = ''DELETE'' then route_unfreeze s
     else if op = ''/freeze'' \<and> http_method req = ''GET'' then route_freeze_status s
     else if op = ''/delete'' \<and> http_method req = ''POST'' then route_delete req s
     else if op = ''/sql'' \<and> http_method req = ''POST'' then route_sql req s
     else if op = ''/alarm'' \<and> http_method req = ''GET'' then route_get_alarm s
     else if op = ''/alarm'' \<and> http_method req = ''PUT'' then route_set_alarm req s
     else if op = ''/alarm'' \<and> http_method req = ''DELETE'' then route_delete_alarm s
     else if op = ''/export'' \<and> http_method req = ''GET'' then route_export now s
     else if op = ''/import'' \<and> http_method req = ''POST'' then route_import req s
     else route_unknown s)"

text \<open>The pairs of selector and method that the chain tests, in its order.\<close>

definition dispatch_table :: "(string \<times> string) list" where
  "dispatch_table =
     [(''/list'', ''GET''), (''/get'', ''GET''), (''/put'', ''POST''),
      (''/freeze'', ''PUT''), (''/freeze'', ''DELETE''), (''/freeze'', ''GET''),
      (''/delete'', ''POST''), (''/sql'', ''POST''),
      (''/alarm'', ''GET''), (''/alarm'', ''PUT''), (''/alarm'', ''DELETE''),
      (''/export'', ''GET''), (''/import'', ''POST'')]"

text \<open>The \<^verbatim>\<open>catch\<close> block: the message of an \<^verbatim>\<open>Error\<close>, a fixed text for anything else.\<close>

definition failure_message :: "failure \<Rightarrow> string" where
  "failure_message f = (case f of Error m \<Rightarrow> m | Thrown_other \<Rightarrow> ''Unknown error'')"

text \<open>
  The credential a request presents, \<^verbatim>\<open>request.headers.get("X-Admin-Key") ?? ""\<close>:
  the header, or the empty string without it.
\<close>

definition credential :: "request \<Rightarrow> js_string" where
  "credential req = (case x_admin_key req of None \<Rightarrow> [] | Some c \<Rightarrow> c)"

text \<open>
  The test of the credential, made when \<^verbatim>\<open>requireAuth\<close> is truthy. An absent
  \<^verbatim>\<open>adminKey\<close> counts as the empty string.
\<close>

definition auth_rejects :: "AdminHooksOptions \<Rightarrow> request \<Rightarrow> bool" where
  "auth_rejects options req =
     (requireAuth options = Some True \<and>
      (let providedKey = credential req;
           expectedKey = (case adminKey options of None \<Rightarrow> [] | Some k \<Rightarrow> k)
       in length providedKey \<noteq> length expectedKey \<or> \<not> timingSafeEqual providedKey expectedKey))"

text \<open>
  The \<^verbatim>\<open>try\<close> statement as a whole: the response of the branch taken, or the
  response 500 that the \<^verbatim>\<open>catch\<close> block builds from what was thrown.
\<close>

definition dispatch ::
  "AdminHooksOptions \<Rightarrow> string \<Rightarrow> request \<Rightarrow> storage \<Rightarrow> response \<times> storage"
where
  "dispatch options now req s =
     (case route now (operation (basePath options) (pathname req)) req s of
        (Inr r, s1) \<Rightarrow> (r, s1)
      | (Inl f, s1) \<Rightarrow> (error_response 500 (failure_message f), s1))"

text \<open>
  \<open>handleAdminRequest\<close> answers \<open>None\<close> for a request that is not an admin request
  (\<^verbatim>\<open>null\<close> in the source), and the response otherwise, with the store as the request
  left it.
\<close>

definition handleAdminRequest ::
  "AdminHooksOptions \<Rightarrow> string \<Rightarrow> request \<Rightarrow> storage \<Rightarrow> response option \<times> storage"
where
  "handleAdminRequest options now req s =
     (let path = pathname req in
      if \<not> prefix (basePath options) path then (None, s)
      else if auth_rejects options req then (Some (error_response 401 ''Unauthorized''), s)
      else (let (r, s1) = dispatch options now req s in (Some r, s1)))"

section \<open>Notions used in the statements\<close>

text \<open>The frozen flag as the guard reads it.\<close>

definition is_frozen :: "storage \<Rightarrow> bool" where
  "is_frozen s = truthy (fmlookup (entries s) FROZEN_STORAGE_KEY)"

text \<open>
  The invariant of the freeze record as the specification words it: the frozen-at key
  is present exactly when the frozen key holds \<^verbatim>\<open>true\<close>.
\<close>

definition freeze_inv :: "storage \<Rightarrow> bool" where
  "freeze_inv s =
     ((FROZEN_AT_KEY |\<in>| fmdom (entries s)) =
      (fmlookup (entries s) FROZEN_STORAGE_KEY = Some (JBool True)))"

text \<open>The same predicate on a record of data handed to \<open>adminImport\<close>.\<close>

definition record_freeze_inv :: "js_record \<Rightarrow> bool" where
  "record_freeze_inv d =
     ((FROZEN_AT_KEY |\<in>| fmdom d) = (fmlookup d FROZEN_STORAGE_KEY = Some (JBool True)))"

text \<open>The statuses a branch of the router answers by itself.\<close>

definition ok_status :: "routed \<Rightarrow> bool" where
  "ok_status x =
     (case fst x of
        Inl f \<Rightarrow> True
      | Inr r \<Rightarrow> status r = 200 \<or> status r = 400 \<or> status r = 404)"

section \<open>Unfolding the store\<close>

lemmas store_defs =
  storage_get_def storage_put_def storage_put_entries_def storage_delete_def storage_list_def
  storage_getAlarm_def storage_setAlarm_def storage_deleteAlarm_def sql_exec_def logged_def

lemma reserved_keys_differ: "FROZEN_AT_KEY \<noteq> FROZEN_STORAGE_KEY"
  by (simp add: FROZEN_AT_KEY_def)

section \<open>Authentication\<close>

text \<open>The accumulated value is zero exactly when every term is.\<close>

lemma fold_or_zero:
  "fold (\<lambda>i (result::32 word). result OR g i) xs r = 0 \<longleftrightarrow> r = 0 \<and> (\<forall>i\<in>set xs. g i = 0)"
  by (induction xs arbitrary: r) (auto simp: or_eq_0_iff)

lemma xor_zero_iff_eq: "(x::32 word) XOR y = 0 \<longleftrightarrow> x = y"
proof
  assume "x XOR y = 0"
  then have "x XOR (x XOR y) = x XOR 0" by simp
  then show "x = y" by (simp add: bit.xor_left_self)
qed simp

lemma ucast_16_32_inj: "(ucast (x::16 word) :: 32 word) = ucast y \<longleftrightarrow> x = y"
proof
  assume "(ucast x :: 32 word) = ucast y"
  then have "uint (ucast x :: 32 word) = uint (ucast y :: 32 word)" by simp
  then show "x = y" by (simp add: uint_up_ucast is_up word_uint_eq_iff)
qed simp

lemma timingSafeEqual_iff: "timingSafeEqual a b \<longleftrightarrow> a = b"
proof (cases "length a = length b")
  case False
  then show ?thesis by (auto simp: timingSafeEqual_def)
next
  case True
  then have "timingSafeEqual a b \<longleftrightarrow> (\<forall>i<length a. a ! i = b ! i)"
    by (auto simp: timingSafeEqual_def fold_or_zero xor_zero_iff_eq charCodeAt_def ucast_16_32_inj)
  with True show ?thesis by (auto simp: list_eq_iff_nth_eq)
qed

lemma auth_rejects_iff:
  "auth_rejects options req \<longleftrightarrow>
     requireAuth options = Some True \<and>
     credential req \<noteq> (case adminKey options of None \<Rightarrow> [] | Some k \<Rightarrow> k)"
  by (auto simp: auth_rejects_def Let_def timingSafeEqual_iff)

text \<open>The statuses of the router's own branches leave 401 to the test of the credential.\<close>

lemma ok_status_handlers:
  "ok_status (route_list s)" "ok_status (route_get req s)" "ok_status (route_put req s)"
  "ok_status (route_freeze now s)" "ok_status (route_unfreeze s)" "ok_status (route_freeze_status s)"
  "ok_status (route_delete req s)" "ok_status (route_sql req s)" "ok_status (route_get_alarm s)"
  "ok_status (route_set_alarm req s)" "ok_status (route_delete_alarm s)" "ok_status (route_export now s)"
  "ok_status (route_import req s)" "ok_status (route_unknown s)"
  by (auto simp: ok_status_def route_list_def route_get_def route_put_def route_freeze_def
      route_unfreeze_def route_freeze_status_def route_delete_def route_sql_def route_get_alarm_def
      route_set_alarm_def route_delete_alarm_def route_export_def route_import_def route_unknown_def
      json_response_def error_response_def Let_def
      split: sum.splits option.splits prod.splits jsval.splits)

lemma route_status: "ok_status (route now op req s)"
  by (simp add: route_def ok_status_handlers)

lemma dispatch_status: "status (fst (dispatch options now req s)) \<noteq> 401"
  using route_status [of now "operation (basePath options) (pathname req)" req s]
  by (auto simp: dispatch_def ok_status_def error_response_def split: prod.splits sum.splits)

text \<open>
  C1. With \<^verbatim>\<open>requireAuth\<close> set and an admin key \<open>K\<close> configured, a request on an admin
  path passes the test of the credential exactly when its credential (the header
  \<^verbatim>\<open>X-Admin-Key\<close>, or the empty string without it) is \<open>K\<close>: then the answer is the
  one of the dispatch; otherwise the answer is 401 with the body
  \<^verbatim>\<open>{error: "Unauthorized"}\<close>, and the store, its log of calls included, is as
  before, so no storage call was made. The status is 401 in no other case.
\<close>

theorem auth_iff_exact_match:
  assumes "requireAuth options = Some True"
    and "adminKey options = Some K"
    and "prefix (basePath options) (pathname req)"
  shows "(credential req = K \<longrightarrow>
            handleAdminRequest options now req s =
              (Some (fst (dispatch options now req s)), snd (dispatch options now req s)))
       \<and> (credential req \<noteq> K \<longrightarrow>
            handleAdminRequest options now req s =
              (Some \<lparr>status = 401, payload = P_error ''Unauthorized''\<rparr>, s))
       \<and> ((map_option status (fst (handleAdminRequest options now req s)) = Some 401)
            = (credential req \<noteq> K))"
  using assms dispatch_status [of options now req s]
  by (auto simp: handleAdminRequest_def auth_rejects_iff error_response_def Let_def
      split: prod.splits)

theorem auth_iff_exact_match_witness:
  "requireAuth \<lparr>opt_basePath = None, requireAuth = Some True, adminKey = Some [0x73, 0x33]\<rparr> = Some True
   \<and> prefix (basePath \<lparr>opt_basePath = None, requireAuth = Some True, adminKey = Some [0x73, 0x33]\<rparr>)
        (pathname \<lparr>pathname = ''/admin/alarm'', http_method = ''DELETE'', x_admin_key = Some [0x73, 0x34],
                   key_param = None, json = Inl Thrown_other\<rparr>)
   \<and> credential \<lparr>pathname = ''/admin/alarm'', http_method = ''DELETE'', x_admin_key = Some [0x73, 0x34],
                   key_param = None, json = Inl Thrown_other\<rparr> \<noteq> [0x73, 0x33]
   \<and> handleAdminRequest \<lparr>opt_basePath = None, requireAuth = Some True, adminKey = Some [0x73, 0x33]\<rparr>
        ''2026-01-05T00:00:00.000Z''
        \<lparr>pathname = ''/admin/alarm'', http_method = ''DELETE'', x_admin_key = Some [0x73, 0x34],
          key_param = None, json = Inl Thrown_other\<rparr>
        (empty_storage None)
      = (Some \<lparr>status = 401, payload = P_error ''Unauthorized''\<rparr>, empty_storage None)"
  using auth_iff_exact_match
    [of "\<lparr>opt_basePath = None, requireAuth = Some True, adminKey = Some [0x73, 0x33]\<rparr>"
        "[0x73, 0x33]"
        "\<lparr>pathname = ''/admin/alarm'', http_method = ''DELETE'', x_admin_key = Some [0x73, 0x34],
          key_param = None, json = Inl Thrown_other\<rparr>"
        "''2026-01-05T00:00:00.000Z''" "empty_storage None"]
  by (simp add: basePath_def credential_def)

section \<open>The freeze guard\<close>

text \<open>
  C2. In a store whose frozen flag is truthy, \<open>adminPut\<close> and \<open>adminDelete\<close> of a key
  other than the frozen-flag key, and \<open>adminImport\<close> of any data, fail with the frozen
  error, and each leaves the store as it was: the entries, the alarm and the relational
  capability are unchanged, and the one call made on the store is the read of the
  frozen flag, so no write and no delete happened.
\<close>

theorem frozen_guard_blocks_mutation:
  assumes "is_frozen s" and "k \<noteq> FROZEN_STORAGE_KEY"
  shows "fst (adminPut k v s) = Inl (Error frozen_changes_msg)
       \<and> fst (adminDelete k s) = Inl (Error frozen_changes_msg)
       \<and> fst (adminImport d s) = Inl (Error frozen_import_msg)
       \<and> (\<forall>s' \<in> {snd (adminPut k v s), snd (adminDelete k s), snd (adminImport d s)}.
             entries s' = entries s \<and> alarm s' = alarm s \<and> sql s' = sql s
             \<and> calls s' = calls s @ [Call_get FROZEN_STORAGE_KEY])"
  using assms
  by (simp add: adminPut_def adminDelete_def adminImport_def storage_get_def is_frozen_def
      logged_def)

theorem frozen_guard_blocks_mutation_witness:
  "is_frozen (snd (adminFreeze ''2026-01-05T00:00:00.000Z'' (empty_storage None)))
   \<and> ''a'' \<noteq> FROZEN_STORAGE_KEY
   \<and> fst (adminPut ''a'' (JNum 1) (snd (adminFreeze ''2026-01-05T00:00:00.000Z'' (empty_storage None))))
       = Inl (Error frozen_changes_msg)
   \<and> fst (adminDelete ''a'' (snd (adminFreeze ''2026-01-05T00:00:00.000Z'' (empty_storage None))))
       = Inl (Error frozen_changes_msg)
   \<and> fst (adminImport (fmupd ''a'' (JNum 1) fmempty)
            (snd (adminFreeze ''2026-01-05T00:00:00.000Z'' (empty_storage None))))
       = Inl (Error frozen_import_msg)
   \<and> entries (snd (adminPut ''a'' (JNum 1)
         (snd (adminFreeze ''2026-01-05T00:00:00.000Z'' (empty_storage None)))))
       = entries (snd (adminFreeze ''2026-01-05T00:00:00.000Z'' (empty_storage None)))"
proof -
  have f: "is_frozen (snd (adminFreeze ''2026-01-05T00:00:00.000Z'' (empty_storage None)))"
    by (simp add: is_frozen_def adminFreeze_def storage_put_def logged_def empty_storage_def
        FROZEN_AT_KEY_def FROZEN_STORAGE_KEY_def Let_def)
  have k: "''a'' \<noteq> FROZEN_STORAGE_KEY"
    by (simp add: FROZEN_STORAGE_KEY_def)
  show ?thesis
    using f k frozen_guard_blocks_mutation [OF f k, of "JNum 1" "fmupd ''a'' (JNum 1) fmempty"]
    by simp
qed

text \<open>
  C4, as the code has it. The frozen-flag key is the one key the guard lets through:
  \<open>adminPut\<close> and \<open>adminDelete\<close> of \<open>FROZEN_STORAGE_KEY\<close> go to the store without
  reading the flag, in every state, frozen ones included, and so never fail.
\<close>

theorem frozen_flag_key_exempt:
  "adminPut FROZEN_STORAGE_KEY v s = (Inr (), storage_put FROZEN_STORAGE_KEY v s)
   \<and> adminDelete FROZEN_STORAGE_KEY s = (Inr (), snd (storage_delete FROZEN_STORAGE_KEY s))"
  by (simp add: adminPut_def adminDelete_def)

text \<open>
  The frozen-at key is not exempt: in the state that \<open>adminFreeze\<close> leaves, writing or
  deleting it fails with the frozen error.
\<close>

theorem frozen_at_key_not_exempt:
  "is_frozen (snd (adminFreeze ''2026-01-05T00:00:00.000Z'' (empty_storage None)))
   \<and> fst (adminPut FROZEN_AT_KEY (JStr ''x'')
            (snd (adminFreeze ''2026-01-05T00:00:00.000Z'' (empty_storage None))))
       = Inl (Error frozen_changes_msg)
   \<and> fst (adminDelete FROZEN_AT_KEY
            (snd (adminFreeze ''2026-01-05T00:00:00.000Z'' (empty_storage None))))
       = Inl (Error frozen_changes_msg)"
  using reserved_keys_differ
  by (simp add: is_frozen_def adminFreeze_def adminPut_def adminDelete_def store_defs
      empty_storage_def Let_def)

section \<open>The freeze record\<close>

lemma freeze_inv_entries: "freeze_inv s \<Longrightarrow> entries s' = entries s \<Longrightarrow> freeze_inv s'"
  by (simp add: freeze_inv_def)

lemma freeze_inv_empty: "freeze_inv (empty_storage backend)"
  by (simp add: freeze_inv_def empty_storage_def)

lemma freeze_inv_adminFreeze: "freeze_inv (snd (adminFreeze now s))"
  using reserved_keys_differ
  by (simp add: freeze_inv_def adminFreeze_def store_defs Let_def)

lemma freeze_inv_adminUnfreeze: "freeze_inv (snd (adminUnfreeze s))"
  using reserved_keys_differ
  by (simp add: freeze_inv_def adminUnfreeze_def store_defs Let_def)

lemma freeze_inv_adminPut:
  "freeze_inv s \<Longrightarrow> k \<noteq> FROZEN_STORAGE_KEY \<Longrightarrow> k \<noteq> FROZEN_AT_KEY \<Longrightarrow>
   freeze_inv (snd (adminPut k v s))"
  by (auto simp: freeze_inv_def adminPut_def store_defs Let_def)

lemma freeze_inv_adminDelete_any:
  "freeze_inv s \<Longrightarrow> k \<noteq> FROZEN_STORAGE_KEY \<Longrightarrow> freeze_inv (snd (adminDelete k s))"
  by (auto simp: freeze_inv_def adminDelete_def store_defs Let_def)

lemma freeze_inv_put_at:
  "freeze_inv s \<Longrightarrow> freeze_inv (snd (adminPut FROZEN_AT_KEY v s)) = is_frozen s"
  using reserved_keys_differ
  by (auto simp: freeze_inv_def is_frozen_def adminPut_def store_defs Let_def)

lemma freeze_inv_put_flag:
  "freeze_inv s \<Longrightarrow>
   freeze_inv (snd (adminPut FROZEN_STORAGE_KEY v s))
     = ((fmlookup (entries s) FROZEN_STORAGE_KEY = Some (JBool True)) = (v = JBool True))"
  using reserved_keys_differ
  by (auto simp: freeze_inv_def adminPut_def store_defs Let_def)

lemma freeze_inv_delete_flag:
  "freeze_inv s \<Longrightarrow>
   freeze_inv (snd (adminDelete FROZEN_STORAGE_KEY s))
     = (fmlookup (entries s) FROZEN_STORAGE_KEY \<noteq> Some (JBool True))"
  using reserved_keys_differ
  by (auto simp: freeze_inv_def adminDelete_def store_defs Let_def)

lemma freeze_inv_import_iff:
  "freeze_inv s \<Longrightarrow>
   freeze_inv (snd (adminImport d s)) = (is_frozen s \<or> record_freeze_inv d)"
  by (auto simp: freeze_inv_def record_freeze_inv_def is_frozen_def adminImport_def store_defs
      Let_def fmlookup_dom_iff split: if_splits)

lemma entries_read_only:
  "entries (snd (adminList s)) = entries s"
  "entries (snd (adminGet k s)) = entries s"
  "entries (snd (adminExport now s)) = entries s"
  "entries (snd (adminGetFreezeStatus s)) = entries s"
  "entries (snd (adminGetAlarm s)) = entries s"
  "entries (adminSetAlarm t s) = entries s"
  "entries (adminDeleteAlarm s) = entries s"
  "entries (snd (adminSql q s)) = entries s"
  by (auto simp: adminList_def adminGet_def adminExport_def adminGetFreezeStatus_def
      adminGetAlarm_def adminSetAlarm_def adminDeleteAlarm_def adminSql_def store_defs Let_def
      split: option.splits sum.splits prod.splits)

text \<open>
  C3, as the code has it. The invariant holds in the empty store, and \<open>adminFreeze\<close>
  and \<open>adminUnfreeze\<close> establish it from every state. From a state where it holds:
  the operations that write no entry keep it; \<open>adminPut\<close> keeps it for every key that
  is neither reserved key; \<open>adminDelete\<close> keeps it for every key other than the
  frozen-flag key, the frozen-at key included. For the remaining calls it is kept in
  exactly these cases: \<open>adminPut\<close> of the frozen-at key when the store is frozen (the
  guard refuses the write); \<open>adminPut\<close> of the frozen-flag key with \<open>v\<close> when \<open>v\<close> is
  \<^verbatim>\<open>true\<close> exactly if the flag already is; \<open>adminDelete\<close> of the frozen-flag key when
  the flag is not \<^verbatim>\<open>true\<close>; \<open>adminImport\<close> when the store is frozen (refused) or the
  data itself has the frozen-at key exactly if it has the flag at \<^verbatim>\<open>true\<close>, as all
  data without reserved keys has.
\<close>

theorem freeze_inv_preserved:
  "freeze_inv (empty_storage backend)
   \<and> freeze_inv (snd (adminFreeze now s))
   \<and> freeze_inv (snd (adminUnfreeze s))
   \<and> (freeze_inv s \<longrightarrow>
         freeze_inv (snd (adminList s))
       \<and> freeze_inv (snd (adminGet k' s))
       \<and> freeze_inv (snd (adminExport now s))
       \<and> freeze_inv (snd (adminGetFreezeStatus s))
       \<and> freeze_inv (snd (adminGetAlarm s))
       \<and> freeze_inv (adminSetAlarm t s)
       \<and> freeze_inv (adminDeleteAlarm s)
       \<and> freeze_inv (snd (adminSql q s))
       \<and> (k \<noteq> FROZEN_STORAGE_KEY \<and> k \<noteq> FROZEN_AT_KEY \<longrightarrow> freeze_inv (snd (adminPut k v s)))
       \<and> (k \<noteq> FROZEN_STORAGE_KEY \<longrightarrow> freeze_inv (snd (adminDelete k s)))
       \<and> (freeze_inv (snd (adminPut FROZEN_AT_KEY v s)) = is_frozen s)
       \<and> (freeze_inv (snd (adminPut FROZEN_STORAGE_KEY v s))
            = ((fmlookup (entries s) FROZEN_STORAGE_KEY = Some (JBool True)) = (v = JBool True)))
       \<and> (freeze_inv (snd (adminDelete FROZEN_STORAGE_KEY s))
            = (fmlookup (entries s) FROZEN_STORAGE_KEY \<noteq> Some (JBool True)))
       \<and> (freeze_inv (snd (adminImport d s)) = (is_frozen s \<or> record_freeze_inv d)))"
proof (intro conjI)
  show "freeze_inv (empty_storage backend)" by (rule freeze_inv_empty)
  show "freeze_inv (snd (adminFreeze now s))" by (rule freeze_inv_adminFreeze)
  show "freeze_inv (snd (adminUnfreeze s))" by (rule freeze_inv_adminUnfreeze)
qed (simp add: freeze_inv_adminPut freeze_inv_adminDelete_any freeze_inv_put_at
      freeze_inv_put_flag freeze_inv_delete_flag freeze_inv_import_iff
      freeze_inv_entries [OF _ entries_read_only(1)] freeze_inv_entries [OF _ entries_read_only(2)]
      freeze_inv_entries [OF _ entries_read_only(3)] freeze_inv_entries [OF _ entries_read_only(4)]
      freeze_inv_entries [OF _ entries_read_only(5)] freeze_inv_entries [OF _ entries_read_only(6)]
      freeze_inv_entries [OF _ entries_read_only(7)] freeze_inv_entries [OF _ entries_read_only(8)])

theorem freeze_inv_preserved_witness:
  "freeze_inv (snd (adminFreeze ''2026-01-05T00:00:00.000Z'' (empty_storage None)))
   \<and> ''a'' \<noteq> FROZEN_STORAGE_KEY \<and> ''a'' \<noteq> FROZEN_AT_KEY
   \<and> is_frozen (snd (adminFreeze ''2026-01-05T00:00:00.000Z'' (empty_storage None)))
   \<and> freeze_inv (snd (adminPut ''a'' (JNum 1)
        (snd (adminFreeze ''2026-01-05T00:00:00.000Z'' (empty_storage None)))))
   \<and> freeze_inv (snd (adminDelete ''a''
        (snd (adminFreeze ''2026-01-05T00:00:00.000Z'' (empty_storage None)))))
   \<and> freeze_inv (snd (adminPut FROZEN_AT_KEY (JStr ''x'')
        (snd (adminFreeze ''2026-01-05T00:00:00.000Z'' (empty_storage None)))))
   \<and> freeze_inv (snd (adminPut FROZEN_STORAGE_KEY (JBool True)
        (snd (adminFreeze ''2026-01-05T00:00:00.000Z'' (empty_storage None)))))
   \<and> \<not> freeze_inv (snd (adminDelete FROZEN_STORAGE_KEY
        (snd (adminFreeze ''2026-01-05T00:00:00.000Z'' (empty_storage None)))))
   \<and> freeze_inv (snd (adminImport (fmupd FROZEN_AT_KEY JNull fmempty)
        (snd (adminFreeze ''2026-01-05T00:00:00.000Z'' (empty_storage None)))))"
proof -
  let ?s = "snd (adminFreeze ''2026-01-05T00:00:00.000Z'' (empty_storage None))"
  have e: "entries ?s = fmupd FROZEN_AT_KEY (JStr ''2026-01-05T00:00:00.000Z'')
                          (fmupd FROZEN_STORAGE_KEY (JBool True) fmempty)"
    by (simp add: adminFreeze_def store_defs empty_storage_def Let_def)
  have i: "freeze_inv ?s"
    using reserved_keys_differ by (simp add: freeze_inv_def e)
  have f: "is_frozen ?s"
    using reserved_keys_differ by (simp add: is_frozen_def e)
  have l: "fmlookup (entries ?s) FROZEN_STORAGE_KEY = Some (JBool True)"
    using reserved_keys_differ by (simp add: e)
  have k: "''a'' \<noteq> FROZEN_STORAGE_KEY" "''a'' \<noteq> FROZEN_AT_KEY"
    by (simp_all add: FROZEN_STORAGE_KEY_def FROZEN_AT_KEY_def)
  show ?thesis
    using i f l k
      freeze_inv_preserved [where s = ?s and k = "''a''" and v = "JNum 1"]
      freeze_inv_preserved [where s = ?s and k = "''a''" and v = "JStr ''x''"]
      freeze_inv_preserved [where s = ?s and k = "''a''" and v = "JBool True"
        and d = "fmupd FROZEN_AT_KEY JNull fmempty"]
    by simp
qed

text \<open>
  Through the reserved keys the invariant is lost. In the empty store, where it holds,
  each of these succeeds and breaks it: \<open>adminPut\<close> of the frozen-flag key with
  \<^verbatim>\<open>true\<close>, \<open>adminPut\<close> of the frozen-at key, and \<open>adminImport\<close> of the flag alone. In
  the state that \<open>adminFreeze\<close> leaves, \<open>adminDelete\<close> of the frozen-flag key succeeds and
  breaks it.
\<close>

theorem freeze_inv_broken_by_put:
  "freeze_inv (empty_storage None)
   \<and> fst (adminPut FROZEN_STORAGE_KEY (JBool True) (empty_storage None)) = Inr ()
   \<and> \<not> freeze_inv (snd (adminPut FROZEN_STORAGE_KEY (JBool True) (empty_storage None)))
   \<and> fst (adminPut FROZEN_AT_KEY (JStr ''x'') (empty_storage None)) = Inr ()
   \<and> \<not> freeze_inv (snd (adminPut FROZEN_AT_KEY (JStr ''x'') (empty_storage None)))
   \<and> fst (adminImport (fmupd FROZEN_STORAGE_KEY (JBool True) fmempty) (empty_storage None)) = Inr ()
   \<and> \<not> freeze_inv (snd (adminImport (fmupd FROZEN_STORAGE_KEY (JBool True) fmempty)
             (empty_storage None)))
   \<and> freeze_inv (snd (adminFreeze ''2026-01-05T00:00:00.000Z'' (empty_storage None)))
   \<and> fst (adminDelete FROZEN_STORAGE_KEY
        (snd (adminFreeze ''2026-01-05T00:00:00.000Z'' (empty_storage None)))) = Inr ()
   \<and> \<not> freeze_inv (snd (adminDelete FROZEN_STORAGE_KEY
        (snd (adminFreeze ''2026-01-05T00:00:00.000Z'' (empty_storage None)))))"
  using reserved_keys_differ reserved_keys_differ [symmetric]
  by (simp add: freeze_inv_def adminPut_def adminDelete_def adminImport_def adminFreeze_def
      store_defs empty_storage_def Let_def)

section \<open>Writing and reading back\<close>

text \<open>
  C5. In a store whose frozen flag is not truthy, \<open>adminPut k v\<close> succeeds for every key
  and value, and \<open>adminGet k\<close> on the store it leaves answers \<^verbatim>\<open>{value: v}\<close>.
\<close>

theorem put_then_get:
  assumes "\<not> is_frozen s"
  shows "fst (adminPut k v s) = Inr ()
       \<and> fst (adminGet k (snd (adminPut k v s))) = \<lparr>get_value = Some v\<rparr>"
  using assms
  by (simp add: is_frozen_def adminPut_def adminGet_def store_defs)

theorem put_then_get_witness:
  "\<not> is_frozen (empty_storage None)
   \<and> fst (adminPut ''a'' (JNum 1) (empty_storage None)) = Inr ()
   \<and> fst (adminGet ''a'' (snd (adminPut ''a'' (JNum 1) (empty_storage None))))
       = \<lparr>get_value = Some (JNum 1)\<rparr>"
proof -
  have u: "\<not> is_frozen (empty_storage None)"
    by (simp add: is_frozen_def empty_storage_def)
  show ?thesis
    using u put_then_get [OF u, of "''a''" "JNum 1"] by simp
qed

section \<open>Export and import\<close>

text \<open>
  The listing of the store has each key once, and looking a key up in it is looking it
  up in the store. The loop of \<open>adminExport\<close> therefore copies every entry but the one
  under the key \<^verbatim>\<open>__proto__\<close>, and \<open>keyCount\<close> counts all entries of the store.
\<close>

lemma entry_list_keys: "map fst (entry_list m) = sorted_list_of_fset (fmdom m)"
  by (simp add: entry_list_def comp_def)

lemma entry_list_distinct: "distinct (map fst (entry_list m))"
  by (simp add: entry_list_keys sorted_list_of_fset.rep_eq)

lemma entry_list_length: "length (entry_list m) = fcard (fmdom m)"
  by (simp add: entry_list_def sorted_list_of_fset.rep_eq fcard.rep_eq)

lemma entry_list_keys_set: "fst ` set (entry_list m) = fset (fmdom m)"
  using entry_list_keys [of m] by (metis set_map sorted_list_of_fset_simps(1))

lemma entry_list_map_of: "map_of (entry_list m) k = fmlookup m k"
proof (cases "k |\<in>| fmdom m")
  case True
  then obtain v where "fmlookup m k = Some v" by (auto simp: fmlookup_dom_iff)
  with True show ?thesis
    by (simp add: entry_list_def map_of_map_restrict restrict_map_def)
next
  case False
  then have "fmlookup m k = None" by (simp add: fmdom_notD)
  with False show ?thesis
    by (simp add: entry_list_def map_of_map_restrict restrict_map_def)
qed

lemma fold_assign_lookup:
  "distinct (map fst xs) \<Longrightarrow>
   fmlookup (fold (\<lambda>(k, v) acc. assign acc k v) xs acc) k =
     (if k \<noteq> ''__proto__'' \<and> k \<in> fst ` set xs then map_of xs k else fmlookup acc k)"
proof (induction xs arbitrary: acc)
  case Nil
  then show ?case by simp
next
  case (Cons x xs)
  obtain k' v' where x: "x = (k', v')" by (cases x)
  from Cons.prems have d: "distinct (map fst xs)" and n: "k' \<notin> fst ` set xs"
    by (auto simp: x)
  show ?case
    using Cons.IH [OF d, of "assign acc k' v'"] n
    by (auto simp: x assign_def)
qed

lemma export_data_lookup:
  "fmlookup (export_data (fst (adminExport now s))) k =
     (if k = ''__proto__'' then None else fmlookup (entries s) k)"
  by (simp add: adminExport_def storage_list_def fold_assign_lookup entry_list_distinct
      entry_list_keys_set entry_list_map_of fmdom_notD)

lemma export_keyCount: "keyCount (fst (adminExport now s)) = fcard (fmdom (entries s))"
  by (simp add: adminExport_def storage_list_def entry_list_length)

lemma export_data_eq:
  "export_data (fst (adminExport now s)) = fmfilter (\<lambda>k. k \<noteq> ''__proto__'') (entries s)"
  by (rule fmap_ext) (simp add: export_data_lookup)

lemma import_into_empty:
  "entries (snd (adminImport d (empty_storage backend))) = d"
  by (simp add: adminImport_def store_defs empty_storage_def)

lemma export_import_round_trip:
  assumes "''__proto__'' |\<notin>| fmdom (entries s)"
  shows "entries (snd (adminImport (export_data (fst (adminExport now s))) (empty_storage backend)))
           = entries s
       \<and> keyCount (fst (adminExport now s)) = fcard (fmdom (export_data (fst (adminExport now s))))"
proof -
  have "fmfilter (\<lambda>k. k \<noteq> ''__proto__'') (entries s) = entries s"
    using assms by (intro fmfilter_true) (auto simp: fmdomI)
  then show ?thesis
    by (simp add: import_into_empty export_data_eq export_keyCount)
qed

text \<open>
  C6 at the input where the code departs from it. In the store whose one entry has the
  key \<^verbatim>\<open>__proto__\<close> and the value 1 (unfrozen, reached from the empty store by \<open>adminPut\<close>),
  \<open>adminExport\<close> answers an empty \<open>data\<close> with \<open>keyCount\<close> 1, and importing that
  \<open>data\<close> into an empty store leaves it empty: the entry is lost, and the count is
  not the number of pairs in \<open>data\<close>. For a store without that key the round trip
  and the count are as C6 says (\<open>export_import_round_trip\<close>).
\<close>

theorem export_import_loses_proto_key:
  "\<not> is_frozen (snd (adminPut ''__proto__'' (JNum 1) (empty_storage None)))
   \<and> fmlookup (entries (snd (adminPut ''__proto__'' (JNum 1) (empty_storage None)))) ''__proto__''
       = Some (JNum 1)
   \<and> export_data (fst (adminExport ''2026-01-05T00:00:00.000Z''
        (snd (adminPut ''__proto__'' (JNum 1) (empty_storage None))))) = fmempty
   \<and> keyCount (fst (adminExport ''2026-01-05T00:00:00.000Z''
        (snd (adminPut ''__proto__'' (JNum 1) (empty_storage None))))) = 1
   \<and> entries (snd (adminImport
        (export_data (fst (adminExport ''2026-01-05T00:00:00.000Z''
           (snd (adminPut ''__proto__'' (JNum 1) (empty_storage None))))))
        (empty_storage None))) = fmempty"
proof -
  let ?s = "snd (adminPut ''__proto__'' (JNum 1) (empty_storage None))"
  have e: "entries ?s = fmupd ''__proto__'' (JNum 1) fmempty"
    by (simp add: adminPut_def store_defs empty_storage_def FROZEN_STORAGE_KEY_def)
  have d: "export_data (fst (adminExport ''2026-01-05T00:00:00.000Z'' ?s)) = fmempty"
    by (rule fmap_ext) (simp add: export_data_lookup e)
  have c: "keyCount (fst (adminExport ''2026-01-05T00:00:00.000Z'' ?s)) = 1"
    by (simp add: export_keyCount e fcard_finsert_disjoint)
  have f: "\<not> is_frozen ?s"
    by (simp add: is_frozen_def e FROZEN_STORAGE_KEY_def)
  show ?thesis
    using f c by (simp add: d e import_into_empty)
qed

lemma fcard_two_more:
  "a \<noteq> b \<Longrightarrow> fcard (finsert a (finsert b A)) = fcard (A |-| {|a, b|}) + 2"
proof -
  assume ab: "a \<noteq> b"
  have "finsert a (finsert b A) = finsert a (finsert b (A |-| {|a, b|}))" by auto
  moreover have "a |\<notin>| finsert b (A |-| {|a, b|})" "b |\<notin>| A |-| {|a, b|}" using ab by auto
  ultimately show ?thesis by (simp add: fcard_finsert_disjoint)
qed

text \<open>
  C10. After \<open>adminFreeze\<close>, \<open>adminExport\<close> has both reserved keys in its \<open>data\<close>, with
  the values \<^verbatim>\<open>true\<close> and the time of the freeze, and its \<open>keyCount\<close> counts the two
  on top of the other keys of the store; on a key-value backend \<open>adminList\<close> answers
  keys among which both are.
\<close>

theorem reserved_keys_exported_and_listed:
  "fmlookup (export_data (fst (adminExport now' (snd (adminFreeze now s))))) FROZEN_STORAGE_KEY
     = Some (JBool True)
   \<and> fmlookup (export_data (fst (adminExport now' (snd (adminFreeze now s))))) FROZEN_AT_KEY
     = Some (JStr now)
   \<and> keyCount (fst (adminExport now' (snd (adminFreeze now s))))
     = fcard (fmdom (entries s) |-| {|FROZEN_AT_KEY, FROZEN_STORAGE_KEY|}) + 2
   \<and> (sql s = None \<longrightarrow>
        (\<exists>ks. fst (adminList (snd (adminFreeze now s))) = Inr (Keys ks)
              \<and> FROZEN_STORAGE_KEY \<in> set ks \<and> FROZEN_AT_KEY \<in> set ks))"
proof -
  let ?s = "snd (adminFreeze now s)"
  have e: "entries ?s = fmupd FROZEN_AT_KEY (JStr now) (fmupd FROZEN_STORAGE_KEY (JBool True) (entries s))"
    by (simp add: adminFreeze_def store_defs Let_def)
  have p: "FROZEN_STORAGE_KEY \<noteq> ''__proto__''" "FROZEN_AT_KEY \<noteq> ''__proto__''"
    by (simp_all add: FROZEN_STORAGE_KEY_def FROZEN_AT_KEY_def)
  have 1: "fmlookup (export_data (fst (adminExport now' ?s))) FROZEN_STORAGE_KEY = Some (JBool True)"
    using p reserved_keys_differ by (simp add: export_data_lookup e)
  have 2: "fmlookup (export_data (fst (adminExport now' ?s))) FROZEN_AT_KEY = Some (JStr now)"
    using p by (simp add: export_data_lookup e)
  have 3: "keyCount (fst (adminExport now' ?s))
           = fcard (fmdom (entries s) |-| {|FROZEN_AT_KEY, FROZEN_STORAGE_KEY|}) + 2"
    using fcard_two_more [OF reserved_keys_differ] by (simp add: export_keyCount e)
  have 4: "\<exists>ks. fst (adminList ?s) = Inr (Keys ks)
              \<and> FROZEN_STORAGE_KEY \<in> set ks \<and> FROZEN_AT_KEY \<in> set ks" if "sql s = None"
  proof -
    have "sql ?s = None" using that by (simp add: adminFreeze_def store_defs Let_def)
    then have "fst (adminList ?s) = Inr (Keys (map fst (entry_list (entries ?s))))"
      by (simp add: adminList_def store_defs)
    moreover have "set (map fst (entry_list (entries ?s))) = fset (fmdom (entries ?s))"
      using entry_list_keys_set [of "entries ?s"] by simp
    ultimately show ?thesis by (auto simp: e)
  qed
  from 1 2 3 4 show ?thesis by blast
qed

theorem reserved_keys_exported_and_listed_witness:
  "sql (empty_storage None) = None
   \<and> keyCount (fst (adminExport ''t2'' (snd (adminFreeze ''t1'' (empty_storage None))))) = 2
   \<and> (\<exists>ks. fst (adminList (snd (adminFreeze ''t1'' (empty_storage None)))) = Inr (Keys ks)
              \<and> FROZEN_STORAGE_KEY \<in> set ks \<and> FROZEN_AT_KEY \<in> set ks)"
proof -
  have n: "sql (empty_storage None) = None" by (simp add: empty_storage_def)
  have e: "entries (empty_storage None) = fmempty" by (simp add: empty_storage_def)
  show ?thesis
    using n reserved_keys_exported_and_listed [of "''t2''" "''t1''" "empty_storage None"]
    by (simp add: e)
qed

section \<open>Routing\<close>

lemma split_slash_not_Nil: "split_slash xs \<noteq> []"
  by (induction xs) (auto split: list.splits)

lemma split_slash_append:
  "split_slash (xs @ CHR ''/'' # ys) = split_slash xs @ split_slash ys"
proof (induction xs)
  case Nil
  then show ?case by simp
next
  case (Cons c cs)
  obtain p ps where "split_slash cs = p # ps"
    using split_slash_not_Nil [of cs] by (cases "split_slash cs") auto
  with Cons show ?case by simp
qed

lemma split_slash_no_slash: "CHR ''/'' \<notin> set sel \<Longrightarrow> split_slash sel = [sel]"
  by (induction sel) auto

lemma auth_rejects_pathname [simp]:
  "auth_rejects options (req\<lparr>pathname := p\<rparr>) = auth_rejects options req"
  by (simp add: auth_rejects_def credential_def)

lemma route_pathname [simp]: "route now op (req\<lparr>pathname := p\<rparr>) s = route now op req s"
  by (simp add: route_def route_get_def route_put_def route_delete_def route_sql_def
      route_set_alarm_def route_import_def)

lemma frozen_put_fails:
  "is_frozen s \<Longrightarrow> k \<noteq> FROZEN_STORAGE_KEY \<Longrightarrow>
   adminPut k v s = (Inl (Error frozen_changes_msg), logged (Call_get FROZEN_STORAGE_KEY) s)"
  by (simp add: adminPut_def storage_get_def is_frozen_def)

lemma route_unmatched:
  "(op, http_method req) \<notin> set dispatch_table \<Longrightarrow> route now op req s = route_unknown s"
  by (simp add: dispatch_table_def route_def cong: conj_cong)

lemma split_slash_slashes:
  "filter (\<lambda>p. p \<noteq> []) (split_slash (replicate j (CHR ''/''))) = []"
  by (induction j) auto

lemma operation_last_nonempty_segment:
  assumes "sel \<noteq> []" and "CHR ''/'' \<notin> set sel"
  shows "operation b (b @ mid @ ''/'' @ sel @ replicate j (CHR ''/'')) = ''/'' @ sel"
proof -
  have t: "filter (\<lambda>p. p \<noteq> []) (split_slash (sel @ replicate j (CHR ''/''))) = [sel]"
  proof (cases j)
    case 0
    then show ?thesis using assms by (simp add: split_slash_no_slash)
  next
    case (Suc i)
    then have "sel @ replicate j (CHR ''/'') = sel @ CHR ''/'' # replicate i (CHR ''/'')" by simp
    then show ?thesis
      using assms by (simp add: split_slash_append split_slash_no_slash split_slash_slashes)
  qed
  have "filter (\<lambda>p. p \<noteq> []) (split_slash (mid @ CHR ''/'' # sel @ replicate j (CHR ''/'')))
        = filter (\<lambda>p. p \<noteq> []) (split_slash mid) @ [sel]"
    by (simp add: split_slash_append t)
  then show ?thesis
    by (simp add: operation_def Let_def)
qed

lemma handle_selected:
  assumes "pathname req = basePath options @ mid @ ''/'' @ sel @ replicate j (CHR ''/'')"
    and "sel \<noteq> []" and "CHR ''/'' \<notin> set sel"
  shows "handleAdminRequest options now req s =
     (if auth_rejects options req then (Some (error_response 401 ''Unauthorized''), s)
      else (case route now (''/'' @ sel) req s of
              (Inr r, s1) \<Rightarrow> (Some r, s1)
            | (Inl f, s1) \<Rightarrow> (Some (error_response 500 (failure_message f)), s1)))"
  using operation_last_nonempty_segment [OF assms(2,3), of "basePath options" mid j] assms(1)
  by (simp add: handleAdminRequest_def dispatch_def Let_def split: prod.splits sum.splits)

lemma handle_same_as_direct:
  assumes "pathname req = basePath options @ mid @ ''/'' @ sel @ replicate j (CHR ''/'')"
    and "sel \<noteq> []" and "CHR ''/'' \<notin> set sel"
  shows "handleAdminRequest options now req s
       = handleAdminRequest options now (req\<lparr>pathname := basePath options @ ''/'' @ sel\<rparr>) s"
  using handle_selected [OF assms, of now s]
    handle_selected [where req = "req\<lparr>pathname := basePath options @ ''/'' @ sel\<rparr>"
      and options = options and mid = "[]" and sel = sel and j = 0 and now = now and s = s]
    assms(2,3)
  by simp

lemma route_entries:
  "http_method req = ''GET'' \<Longrightarrow> route now ''/list'' req s = route_list s"
  "http_method req = ''GET'' \<Longrightarrow> route now ''/get'' req s = route_get req s"
  "http_method req = ''POST'' \<Longrightarrow> route now ''/put'' req s = route_put req s"
  "http_method req = ''PUT'' \<Longrightarrow> route now ''/freeze'' req s = route_freeze now s"
  "http_method req = ''DELETE'' \<Longrightarrow> route now ''/freeze'' req s = route_unfreeze s"
  "http_method req = ''GET'' \<Longrightarrow> route now ''/freeze'' req s = route_freeze_status s"
  "http_method req = ''POST'' \<Longrightarrow> route now ''/delete'' req s = route_delete req s"
  "http_method req = ''POST'' \<Longrightarrow> route now ''/sql'' req s = route_sql req s"
  "http_method req = ''GET'' \<Longrightarrow> route now ''/alarm'' req s = route_get_alarm s"
  "http_method req = ''PUT'' \<Longrightarrow> route now ''/alarm'' req s = route_set_alarm req s"
  "http_method req = ''DELETE'' \<Longrightarrow> route now ''/alarm'' req s = route_delete_alarm s"
  "http_method req = ''GET'' \<Longrightarrow> route now ''/export'' req s = route_export now s"
  "http_method req = ''POST'' \<Longrightarrow> route now ''/import'' req s = route_import req s"
  by (simp_all add: route_def)

lemma selected_answers:
  assumes "pathname req = basePath options @ mid @ ''/'' @ sel @ replicate j (CHR ''/'')"
    and "sel \<noteq> []" and "CHR ''/'' \<notin> set sel" and a: "\<not> auth_rejects options req"
  shows "(sel = ''list'' \<and> http_method req = ''GET'' \<and> adminList s = (Inr r, s1) \<longrightarrow>
          handleAdminRequest options now req s = (Some \<lparr>status = 200, payload = P_list r\<rparr>, s1))
      \<and> (sel = ''list'' \<and> http_method req = ''GET'' \<and> adminList s = (Inl f, s1) \<longrightarrow>
          handleAdminRequest options now req s = (Some \<lparr>status = 500, payload = P_error (failure_message f)\<rparr>, s1))
      \<and> (sel = ''get'' \<and> http_method req = ''GET'' \<and> key_param req = Some x \<and> x \<noteq> [] \<longrightarrow>
          handleAdminRequest options now req s = (Some \<lparr>status = 200, payload = P_get (fst (adminGet x s))\<rparr>, snd (adminGet x s)))
      \<and> (sel = ''put'' \<and> http_method req = ''POST'' \<and> json req = Inr bd \<and> body_key bd = Some k \<and> k \<noteq> []
          \<and> adminPut k (body_value bd) s = (Inr u, s1) \<longrightarrow>
          handleAdminRequest options now req s = (Some \<lparr>status = 200, payload = P_success\<rparr>, s1))
      \<and> (sel = ''put'' \<and> http_method req = ''POST'' \<and> json req = Inr bd \<and> body_key bd = Some k \<and> k \<noteq> []
          \<and> adminPut k (body_value bd) s = (Inl f, s1) \<longrightarrow>
          handleAdminRequest options now req s = (Some \<lparr>status = 500, payload = P_error (failure_message f)\<rparr>, s1))
      \<and> (sel = ''freeze'' \<and> http_method req = ''PUT'' \<longrightarrow>
          handleAdminRequest options now req s = (Some \<lparr>status = 200, payload = P_freeze (fst (adminFreeze now s))\<rparr>, snd (adminFreeze now s)))
      \<and> (sel = ''freeze'' \<and> http_method req = ''DELETE'' \<longrightarrow>
          handleAdminRequest options now req s = (Some \<lparr>status = 200, payload = P_freeze (fst (adminUnfreeze s))\<rparr>, snd (adminUnfreeze s)))
      \<and> (sel = ''freeze'' \<and> http_method req = ''GET'' \<longrightarrow>
          handleAdminRequest options now req s = (Some \<lparr>status = 200, payload = P_freeze (fst (adminGetFreezeStatus s))\<rparr>, snd (adminGetFreezeStatus s)))
      \<and> (sel = ''delete'' \<and> http_method req = ''POST'' \<and> json req = Inr bd \<and> body_key bd = Some k \<and> k \<noteq> []
          \<and> adminDelete k s = (Inr u, s1) \<longrightarrow>
          handleAdminRequest options now req s = (Some \<lparr>status = 200, payload = P_success\<rparr>, s1))
      \<and> (sel = ''delete'' \<and> http_method req = ''POST'' \<and> json req = Inr bd \<and> body_key bd = Some k \<and> k \<noteq> []
          \<and> adminDelete k s = (Inl f, s1) \<longrightarrow>
          handleAdminRequest options now req s = (Some \<lparr>status = 500, payload = P_error (failure_message f)\<rparr>, s1))
      \<and> (sel = ''sql'' \<and> http_method req = ''POST'' \<and> json req = Inr bd \<and> body_query bd = Some q \<and> q \<noteq> []
          \<and> adminSql q s = (Inr sr, s1) \<longrightarrow>
          handleAdminRequest options now req s = (Some \<lparr>status = 200, payload = P_sql sr\<rparr>, s1))
      \<and> (sel = ''sql'' \<and> http_method req = ''POST'' \<and> json req = Inr bd \<and> body_query bd = Some q \<and> q \<noteq> []
          \<and> adminSql q s = (Inl f, s1) \<longrightarrow>
          handleAdminRequest options now req s = (Some \<lparr>status = 500, payload = P_error (failure_message f)\<rparr>, s1))
      \<and> (sel = ''alarm'' \<and> http_method req = ''GET'' \<longrightarrow>
          handleAdminRequest options now req s = (Some \<lparr>status = 200, payload = P_alarm (fst (adminGetAlarm s))\<rparr>, snd (adminGetAlarm s)))
      \<and> (sel = ''alarm'' \<and> http_method req = ''PUT'' \<and> json req = Inr bd \<and> body_timestamp bd = Some (JNum t) \<longrightarrow>
          handleAdminRequest options now req s = (Some \<lparr>status = 200, payload = P_success_alarm t\<rparr>, adminSetAlarm t s))
      \<and> (sel = ''alarm'' \<and> http_method req = ''DELETE'' \<longrightarrow>
          handleAdminRequest options now req s = (Some \<lparr>status = 200, payload = P_success\<rparr>, adminDeleteAlarm s))
      \<and> (sel = ''export'' \<and> http_method req = ''GET'' \<longrightarrow>
          handleAdminRequest options now req s = (Some \<lparr>status = 200, payload = P_export (fst (adminExport now s))\<rparr>, snd (adminExport now s)))
      \<and> (sel = ''import'' \<and> http_method req = ''POST'' \<and> json req = Inr bd \<and> body_data bd = Some d
          \<and> adminImport d s = (Inr u, s1) \<longrightarrow>
          handleAdminRequest options now req s = (Some \<lparr>status = 200, payload = P_imported (fcard (fmdom d))\<rparr>, s1))
      \<and> (sel = ''import'' \<and> http_method req = ''POST'' \<and> json req = Inr bd \<and> body_data bd = Some d
          \<and> adminImport d s = (Inl f, s1) \<longrightarrow>
          handleAdminRequest options now req s = (Some \<lparr>status = 500, payload = P_error (failure_message f)\<rparr>, s1))
      \<and> ((''/'' @ sel, http_method req) \<notin> set dispatch_table \<longrightarrow>
          handleAdminRequest options now req s = (Some \<lparr>status = 404, payload = P_error ''Unknown admin endpoint''\<rparr>, s))"
proof -
  note h = handle_selected [OF assms(1,2,3), of now s]
  show ?thesis
  proof (intro conjI impI)
    show "handleAdminRequest options now req s = (Some \<lparr>status = 404, payload = P_error ''Unknown admin endpoint''\<rparr>, s)"
      if "(''/'' @ sel, http_method req) \<notin> set dispatch_table"
      using h a route_unmatched [OF that, of now s]
      by (simp add: route_unknown_def error_response_def)
  qed (simp_all add: h a route_entries route_list_def route_get_def route_put_def route_freeze_def
        route_unfreeze_def route_freeze_status_def route_delete_def route_sql_def
        route_get_alarm_def route_set_alarm_def route_delete_alarm_def route_export_def
        route_import_def json_response_def error_response_def split_beta)
qed

lemma unmatched_404:
  assumes "prefix (basePath options) (pathname req')" "\<not> auth_rejects options req'"
    "(operation (basePath options) (pathname req'), http_method req') \<notin> set dispatch_table"
  shows "handleAdminRequest options now req' s
              = (Some \<lparr>status = 404, payload = P_error ''Unknown admin endpoint''\<rparr>, s)"
  using assms route_unmatched [of "operation (basePath options) (pathname req')" req' now s]
  by (simp add: handleAdminRequest_def dispatch_def route_unknown_def error_response_def)

text \<open>
  C7. The selector is the last non-empty segment of the path. For every base path,
  every text \<open>mid\<close> put between the base path and the last segment (none, or
  \<^verbatim>\<open>/n\<close> for an instance name \<open>n\<close>, or more segments), every number of slashes
  after it, and every selector \<open>sel\<close>: the request is handled as the request to the
  base path followed by \<^verbatim>\<open>/sel\<close> alone. For a request that the test of the credential
  lets through, each entry of the table is answered by its own operation:
  \<^verbatim>\<open>list\<close> by \<open>adminList\<close>, \<^verbatim>\<open>get\<close> by \<open>adminGet\<close> of the query parameter,
  \<^verbatim>\<open>put\<close> by \<open>adminPut\<close>, \<^verbatim>\<open>freeze\<close> by \<open>adminFreeze\<close>, \<open>adminUnfreeze\<close> or
  \<open>adminGetFreezeStatus\<close> after the method, \<^verbatim>\<open>delete\<close> by \<open>adminDelete\<close>,
  \<^verbatim>\<open>sql\<close> by \<open>adminSql\<close>, \<^verbatim>\<open>alarm\<close> by \<open>adminGetAlarm\<close>, \<open>adminSetAlarm\<close> or
  \<open>adminDeleteAlarm\<close> after the method, \<^verbatim>\<open>export\<close> by \<open>adminExport\<close> and
  \<^verbatim>\<open>import\<close> by \<open>adminImport\<close>; and a last segment that, with the method, is no entry
  of the table is answered 404 with the body \<^verbatim>\<open>{error: "Unknown admin endpoint"}\<close>,
  as is every request under the base path whose selector and method are no entry.
\<close>

theorem last_segment_selects_operation:
  assumes "pathname req = basePath options @ mid @ ''/'' @ sel @ replicate j (CHR ''/'')"
    and "sel \<noteq> []" and "CHR ''/'' \<notin> set sel"
  shows "handleAdminRequest options now req s
           = handleAdminRequest options now (req\<lparr>pathname := basePath options @ ''/'' @ sel\<rparr>) s
       \<and> (\<not> auth_rejects options req \<longrightarrow>
            (sel = ''list'' \<and> http_method req = ''GET'' \<and> adminList s = (Inr r, s1) \<longrightarrow>
              handleAdminRequest options now req s = (Some \<lparr>status = 200, payload = P_list r\<rparr>, s1))
          \<and> (sel = ''list'' \<and> http_method req = ''GET'' \<and> adminList s = (Inl f, s1) \<longrightarrow>
              handleAdminRequest options now req s = (Some \<lparr>status = 500, payload = P_error (failure_message f)\<rparr>, s1))
          \<and> (sel = ''get'' \<and> http_method req = ''GET'' \<and> key_param req = Some x \<and> x \<noteq> [] \<longrightarrow>
              handleAdminRequest options now req s = (Some \<lparr>status = 200, payload = P_get (fst (adminGet x s))\<rparr>, snd (adminGet x s)))
          \<and> (sel = ''put'' \<and> http_method req = ''POST'' \<and> json req = Inr bd \<and> body_key bd = Some k \<and> k \<noteq> []
              \<and> adminPut k (body_value bd) s = (Inr u, s1) \<longrightarrow>
              handleAdminRequest options now req s = (Some \<lparr>status = 200, payload = P_success\<rparr>, s1))
          \<and> (sel = ''put'' \<and> http_method req = ''POST'' \<and> json req = Inr bd \<and> body_key bd = Some k \<and> k \<noteq> []
              \<and> adminPut k (body_value bd) s = (Inl f, s1) \<longrightarrow>
              handleAdminRequest options now req s = (Some \<lparr>status = 500, payload = P_error (failure_message f)\<rparr>, s1))
          \<and> (sel = ''freeze'' \<and> http_method req = ''PUT'' \<longrightarrow>
              handleAdminRequest options now req s = (Some \<lparr>status = 200, payload = P_freeze (fst (adminFreeze now s))\<rparr>, snd (adminFreeze now s)))
          \<and> (sel = ''freeze'' \<and> http_method req = ''DELETE'' \<longrightarrow>
              handleAdminRequest options now req s = (Some \<lparr>status = 200, payload = P_freeze (fst (adminUnfreeze s))\<rparr>, snd (adminUnfreeze s)))
          \<and> (sel = ''freeze'' \<and> http_method req = ''GET'' \<longrightarrow>
              handleAdminRequest options now req s = (Some \<lparr>status = 200, payload = P_freeze (fst (adminGetFreezeStatus s))\<rparr>, snd (adminGetFreezeStatus s)))
          \<and> (sel = ''delete'' \<and> http_method req = ''POST'' \<and> json req = Inr bd \<and> body_key bd = Some k \<and> k \<noteq> []
              \<and> adminDelete k s = (Inr u, s1) \<longrightarrow>
              handleAdminRequest options now req s = (Some \<lparr>status = 200, payload = P_success\<rparr>, s1))
          \<and> (sel = ''delete'' \<and> http_method req = ''POST'' \<and> json req = Inr bd \<and> body_key bd = Some k \<and> k \<noteq> []
              \<and> adminDelete k s = (Inl f, s1) \<longrightarrow>
              handleAdminRequest options now req s = (Some \<lparr>status = 500, payload = P_error (failure_message f)\<rparr>, s1))
          \<and> (sel = ''sql'' \<and> http_method req = ''POST'' \<and> json req = Inr bd \<and> body_query bd = Some q \<and> q \<noteq> []
              \<and> adminSql q s = (Inr sr, s1) \<longrightarrow>
              handleAdminRequest options now req s = (Some \<lparr>status = 200, payload = P_sql sr\<rparr>, s1))
          \<and> (sel = ''sql'' \<and> http_method req = ''POST'' \<and> json req = Inr bd \<and> body_query bd = Some q \<and> q \<noteq> []
              \<and> adminSql q s = (Inl f, s1) \<longrightarrow>
              handleAdminRequest options now req s = (Some \<lparr>status = 500, payload = P_error (failure_message f)\<rparr>, s1))
          \<and> (sel = ''alarm'' \<and> http_method req = ''GET'' \<longrightarrow>
              handleAdminRequest options now req s = (Some \<lparr>status = 200, payload = P_alarm (fst (adminGetAlarm s))\<rparr>, snd (adminGetAlarm s)))
          \<and> (sel = ''alarm'' \<and> http_method req = ''PUT'' \<and> json req = Inr bd \<and> body_timestamp bd = Some (JNum t) \<longrightarrow>
              handleAdminRequest options now req s = (Some \<lparr>status = 200, payload = P_success_alarm t\<rparr>, adminSetAlarm t s))
          \<and> (sel = ''alarm'' \<and> http_method req = ''DELETE'' \<longrightarrow>
              handleAdminRequest options now req s = (Some \<lparr>status = 200, payload = P_success\<rparr>, adminDeleteAlarm s))
          \<and> (sel = ''export'' \<and> http_method req = ''GET'' \<longrightarrow>
              handleAdminRequest options now req s = (Some \<lparr>status = 200, payload = P_export (fst (adminExport now s))\<rparr>, snd (adminExport now s)))
          \<and> (sel = ''import'' \<and> http_method req = ''POST'' \<and> json req = Inr bd \<and> body_data bd = Some d
              \<and> adminImport d s = (Inr u, s1) \<longrightarrow>
              handleAdminRequest options now req s = (Some \<lparr>status = 200, payload = P_imported (fcard (fmdom d))\<rparr>, s1))
          \<and> (sel = ''import'' \<and> http_method req = ''POST'' \<and> json req = Inr bd \<and> body_data bd = Some d
              \<and> adminImport d s = (Inl f, s1) \<longrightarrow>
              handleAdminRequest options now req s = (Some \<lparr>status = 500, payload = P_error (failure_message f)\<rparr>, s1))
          \<and> ((''/'' @ sel, http_method req) \<notin> set dispatch_table \<longrightarrow>
              handleAdminRequest options now req s = (Some \<lparr>status = 404, payload = P_error ''Unknown admin endpoint''\<rparr>, s)))
       \<and> (prefix (basePath options) (pathname req') \<and> \<not> auth_rejects options req'
           \<and> (operation (basePath options) (pathname req'), http_method req') \<notin> set dispatch_table \<longrightarrow>
            handleAdminRequest options now req' s
              = (Some \<lparr>status = 404, payload = P_error ''Unknown admin endpoint''\<rparr>, s))"
proof (intro conjI)
  show "handleAdminRequest options now req s
           = handleAdminRequest options now (req\<lparr>pathname := basePath options @ ''/'' @ sel\<rparr>) s"
    by (rule handle_same_as_direct [OF assms])
qed (rule impI, erule selected_answers [OF assms], rule impI, elim conjE, erule (2) unmatched_404)

theorem last_segment_selects_operation_witness:
  "pathname \<lparr>pathname = ''/admin/MyInstance/export/'', http_method = ''GET'', x_admin_key = None,
             key_param = None, json = Inl Thrown_other\<rparr>
     = basePath \<lparr>opt_basePath = None, requireAuth = None, adminKey = None\<rparr>
       @ ''/MyInstance'' @ ''/'' @ ''export'' @ replicate 1 (CHR ''/'')
   \<and> ''export'' \<noteq> [] \<and> CHR ''/'' \<notin> set ''export''
   \<and> \<not> auth_rejects \<lparr>opt_basePath = None, requireAuth = None, adminKey = None\<rparr>
        \<lparr>pathname = ''/admin/MyInstance/export/'', http_method = ''GET'', x_admin_key = None,
          key_param = None, json = Inl Thrown_other\<rparr>
   \<and> handleAdminRequest \<lparr>opt_basePath = None, requireAuth = None, adminKey = None\<rparr> ''t''
        \<lparr>pathname = ''/admin/MyInstance/export/'', http_method = ''GET'', x_admin_key = None,
          key_param = None, json = Inl Thrown_other\<rparr> (empty_storage None)
      = handleAdminRequest \<lparr>opt_basePath = None, requireAuth = None, adminKey = None\<rparr> ''t''
        \<lparr>pathname = ''/admin/export'', http_method = ''GET'', x_admin_key = None,
          key_param = None, json = Inl Thrown_other\<rparr> (empty_storage None)
   \<and> handleAdminRequest \<lparr>opt_basePath = None, requireAuth = None, adminKey = None\<rparr> ''t''
        \<lparr>pathname = ''/admin/MyInstance/export/'', http_method = ''GET'', x_admin_key = None,
          key_param = None, json = Inl Thrown_other\<rparr> (empty_storage None)
      = (Some \<lparr>status = 200, payload = P_export (fst (adminExport ''t'' (empty_storage None)))\<rparr>,
         snd (adminExport ''t'' (empty_storage None)))
   \<and> handleAdminRequest \<lparr>opt_basePath = None, requireAuth = None, adminKey = None\<rparr> ''t''
        \<lparr>pathname = ''/admin/unknown'', http_method = ''GET'', x_admin_key = None,
          key_param = Some ''x'', json = Inl Thrown_other\<rparr> (empty_storage None)
      = (Some \<lparr>status = 404, payload = P_error ''Unknown admin endpoint''\<rparr>, empty_storage None)"
  using last_segment_selects_operation
    [where options = "\<lparr>opt_basePath = None, requireAuth = None, adminKey = None\<rparr>"
       and req = "\<lparr>pathname = ''/admin/MyInstance/export/'', http_method = ''GET'',
                   x_admin_key = None, key_param = None, json = Inl Thrown_other\<rparr>"
       and mid = "''/MyInstance''" and sel = "''export''" and j = 1
       and now = "''t''" and s = "empty_storage None"
       and req' = "\<lparr>pathname = ''/admin/unknown'', http_method = ''GET'', x_admin_key = None,
          key_param = Some ''x'', json = Inl Thrown_other\<rparr>"]
  by (auto simp: basePath_def auth_rejects_def operation_def dispatch_table_def)

text \<open>
  C8, as the code has it. For an admin request that the test of the credential lets
  through: when the branch taken throws an \<^verbatim>\<open>Error\<close>, the answer is 500 with the
  error's message as it is (and with the text \<^verbatim>\<open>Unknown error\<close> when what is thrown is
  not an \<^verbatim>\<open>Error\<close>), and the store is as the branch left it; in particular a
  \<^verbatim>\<open>POST\<close> to the selector \<^verbatim>\<open>/put\<close> in a frozen store, with a non-empty key other than
  the frozen-flag key, is answered 500 with the text of the freeze guard.
\<close>

theorem failure_becomes_500:
  assumes "prefix (basePath options) (pathname req)" and "\<not> auth_rejects options req"
  shows "(route now (operation (basePath options) (pathname req)) req s = (Inl (Error m), s') \<longrightarrow>
            handleAdminRequest options now req s
              = (Some \<lparr>status = 500, payload = P_error m\<rparr>, s'))
       \<and> (route now (operation (basePath options) (pathname req)) req s = (Inl Thrown_other, s') \<longrightarrow>
            handleAdminRequest options now req s
              = (Some \<lparr>status = 500, payload = P_error ''Unknown error''\<rparr>, s'))
       \<and> (is_frozen s \<and> operation (basePath options) (pathname req) = ''/put''
           \<and> http_method req = ''POST'' \<and> json req = Inr bd
           \<and> body_key bd = Some k \<and> k \<noteq> [] \<and> k \<noteq> FROZEN_STORAGE_KEY \<longrightarrow>
            handleAdminRequest options now req s
              = (Some \<lparr>status = 500,
                       payload = P_error ''Instance is frozen. Unfreeze before making changes.''\<rparr>,
                 logged (Call_get FROZEN_STORAGE_KEY) s))"
proof -
  have p: "route now ''/put'' req s
             = (Inl (Error frozen_changes_msg), logged (Call_get FROZEN_STORAGE_KEY) s)"
    if "is_frozen s" "http_method req = ''POST''" "json req = Inr bd"
      "body_key bd = Some k" "k \<noteq> []" "k \<noteq> FROZEN_STORAGE_KEY"
    using that frozen_put_fails [of s k "body_value bd"]
    by (simp add: route_def route_put_def)
  show ?thesis
    using assms p
    by (auto simp: handleAdminRequest_def dispatch_def error_response_def failure_message_def
        frozen_changes_msg_def)
qed

theorem failure_becomes_500_witness:
  "prefix (basePath \<lparr>opt_basePath = None, requireAuth = None, adminKey = None\<rparr>)
      (pathname \<lparr>pathname = ''/admin/put'', http_method = ''POST'', x_admin_key = None,
         key_param = None,
         json = Inr \<lparr>body_key = Some ''a'', body_value = JNum 1, body_query = None,
                      body_timestamp = None, body_data = None\<rparr>\<rparr>)
   \<and> \<not> auth_rejects \<lparr>opt_basePath = None, requireAuth = None, adminKey = None\<rparr>
        \<lparr>pathname = ''/admin/put'', http_method = ''POST'', x_admin_key = None,
         key_param = None,
         json = Inr \<lparr>body_key = Some ''a'', body_value = JNum 1, body_query = None,
                      body_timestamp = None, body_data = None\<rparr>\<rparr>
   \<and> is_frozen (snd (adminFreeze ''2026-01-05T00:00:00.000Z'' (empty_storage None)))
   \<and> fst (handleAdminRequest \<lparr>opt_basePath = None, requireAuth = None, adminKey = None\<rparr>
        ''2026-01-05T00:00:01.000Z''
        \<lparr>pathname = ''/admin/put'', http_method = ''POST'', x_admin_key = None,
         key_param = None,
         json = Inr \<lparr>body_key = Some ''a'', body_value = JNum 1, body_query = None,
                      body_timestamp = None, body_data = None\<rparr>\<rparr>
        (snd (adminFreeze ''2026-01-05T00:00:00.000Z'' (empty_storage None))))
      = Some \<lparr>status = 500,
              payload = P_error ''Instance is frozen. Unfreeze before making changes.''\<rparr>"
proof -
  have f: "is_frozen (snd (adminFreeze ''2026-01-05T00:00:00.000Z'' (empty_storage None)))"
    by (simp add: is_frozen_def adminFreeze_def store_defs empty_storage_def
        FROZEN_AT_KEY_def FROZEN_STORAGE_KEY_def Let_def)
  show ?thesis
    using f failure_becomes_500
      [where options = "\<lparr>opt_basePath = None, requireAuth = None, adminKey = None\<rparr>"
         and req = "\<lparr>pathname = ''/admin/put'', http_method = ''POST'', x_admin_key = None,
           key_param = None,
           json = Inr \<lparr>body_key = Some ''a'', body_value = JNum 1, body_query = None,
                        body_timestamp = None, body_data = None\<rparr>\<rparr>"
         and s = "snd (adminFreeze ''2026-01-05T00:00:00.000Z'' (empty_storage None))"
         and now = "''2026-01-05T00:00:01.000Z''" and k = "''a''"
         and bd = "\<lparr>body_key = Some ''a'', body_value = JNum 1, body_query = None,
                        body_timestamp = None, body_data = None\<rparr>"]
    by (simp add: basePath_def auth_rejects_def operation_def FROZEN_STORAGE_KEY_def)
qed

text \<open>
  With the frozen-flag key itself the same request is answered 200 in a frozen store:
  the guard lets that key through.
\<close>

theorem frozen_put_of_flag_key_succeeds:
  "is_frozen (snd (adminFreeze ''2026-01-05T00:00:00.000Z'' (empty_storage None)))
   \<and> fst (handleAdminRequest \<lparr>opt_basePath = None, requireAuth = None, adminKey = None\<rparr>
        ''2026-01-05T00:00:01.000Z''
        \<lparr>pathname = ''/admin/put'', http_method = ''POST'', x_admin_key = None,
         key_param = None,
         json = Inr \<lparr>body_key = Some ''__do_manager_frozen'', body_value = JNum 1,
                      body_query = None, body_timestamp = None, body_data = None\<rparr>\<rparr>
        (snd (adminFreeze ''2026-01-05T00:00:00.000Z'' (empty_storage None))))
      = Some \<lparr>status = 200, payload = P_success\<rparr>"
  by (simp add: is_frozen_def adminFreeze_def store_defs empty_storage_def
      FROZEN_AT_KEY_def FROZEN_STORAGE_KEY_def Let_def handleAdminRequest_def basePath_def
      auth_rejects_def dispatch_def operation_def route_def route_put_def adminPut_def
      json_response_def)

text \<open>
  C9. With \<^verbatim>\<open>requireAuth\<close> set and no \<^verbatim>\<open>adminKey\<close>, an admin request without the
  header \<^verbatim>\<open>X-Admin-Key\<close> passes the test of the credential: the answer is the one of
  the dispatch, and its status is not 401.
\<close>

theorem empty_key_accepts_missing_header:
  assumes "requireAuth options = Some True" and "adminKey options = None"
    and "x_admin_key req = None" and "prefix (basePath options) (pathname req)"
  shows "\<not> auth_rejects options req
       \<and> handleAdminRequest options now req s =
           (Some (fst (dispatch options now req s)), snd (dispatch options now req s))
       \<and> map_option status (fst (handleAdminRequest options now req s)) \<noteq> Some 401"
  using assms dispatch_status [of options now req s]
  by (auto simp: handleAdminRequest_def auth_rejects_iff credential_def Let_def
      split: prod.splits)

theorem empty_key_accepts_missing_header_witness:
  "requireAuth \<lparr>opt_basePath = None, requireAuth = Some True, adminKey = None\<rparr> = Some True
   \<and> adminKey \<lparr>opt_basePath = None, requireAuth = Some True, adminKey = None\<rparr> = None
   \<and> prefix (basePath \<lparr>opt_basePath = None, requireAuth = Some True, adminKey = None\<rparr>)
        (pathname \<lparr>pathname = ''/admin/alarm'', http_method = ''GET'', x_admin_key = None,
                   key_param = None, json = Inl Thrown_other\<rparr>)
   \<and> handleAdminRequest \<lparr>opt_basePath = None, requireAuth = Some True, adminKey = None\<rparr> ''t''
        \<lparr>pathname = ''/admin/alarm'', http_method = ''GET'', x_admin_key = None,
          key_param = None, json = Inl Thrown_other\<rparr> (empty_storage None)
      = (Some \<lparr>status = 200, payload = P_alarm None\<rparr>, logged Call_getAlarm (empty_storage None))"
  using empty_key_accepts_missing_header
    [where options = "\<lparr>opt_basePath = None, requireAuth = Some True, adminKey = None\<rparr>"
       and req = "\<lparr>pathname = ''/admin/alarm'', http_method = ''GET'', x_admin_key = None,
          key_param = None, json = Inl Thrown_other\<rparr>"
       and now = "''t''" and s = "empty_storage None"]
  by (simp add: basePath_def dispatch_def operation_def route_def route_get_alarm_def
      adminGetAlarm_def store_defs json_response_def empty_storage_def)

end
